theory Spec2Isabelle
  imports Complex_Main "HOL-Library.Word"
begin

section \<open>Data model of \<open>src/utils/utils-win.cpp\<close>\<close>

text \<open>
  Windows integer types as the headers declare them: \<open>DWORD\<close>, \<open>UINT\<close> and C++
  \<open>unsigned\<close> are 32 bits wide, \<open>WORD\<close> is 16 bits wide, \<open>HRESULT\<close> is a signed
  32-bit value read with \<open>sint\<close>.  Handles are opaque numbers; \<open>0\<close> is the null handle.
\<close>

type_synonym DWORD = "32 word"
type_synonym WORD = "16 word"
type_synonym BYTE = "8 word"
type_synonym UINT = "32 word"
type_synonym unsigned = "32 word"
type_synonym HRESULT = "32 word"
type_synonym HMONITOR = nat
type_synonym HDC = nat

text \<open>
  \<open>qreal\<close> is \<open>double\<close>.  Every value the file stores in a \<open>QDpi\<close> is the exact
  conversion of a 32-bit integer, so the values are modelled by the rationals they denote.
\<close>

type_synonym qreal = rat
type_synonym QDpi = "qreal \<times> qreal"

text \<open>\<open>OSVERSIONINFOEX\<close> of \<open>windows.h\<close>, in the ANSI layout the file is compiled with.\<close>

record OSVERSIONINFOEX =
  dwOSVersionInfoSize :: DWORD
  dwMajorVersion :: DWORD
  dwMinorVersion :: DWORD
  dwBuildNumber :: DWORD
  dwPlatformId :: DWORD
  szCSDVersion :: string
  wServicePackMajor :: WORD
  wServicePackMinor :: WORD
  wSuiteMask :: WORD
  wProductType :: BYTE
  wReserved :: BYTE

text \<open>\<open>sizeof(OSVERSIONINFOEX)\<close>: five DWORDs, 128 characters, three WORDs, two BYTEs.\<close>

definition sizeof_OSVERSIONINFOEX :: DWORD where
  "sizeof_OSVERSIONINFOEX = 156"

text \<open>\<open>MONITORINFOEX\<close>; the rectangles \<open>rcMonitor\<close> and \<open>rcWork\<close> are never read.\<close>

record MONITORINFOEX =
  cbSize :: DWORD
  dwFlags :: DWORD
  szDevice :: string

text \<open>
  Calls into the operating system, the loader and the C runtime, in the order the
  program makes them; a look-up is recorded with its outcome.  \<open>qgetenv\<close> and
  \<open>GetDeviceCaps\<close> only read and are not recorded.
\<close>

datatype api_call =
    Call_GetVersionEx
  | Call_resolve string string bool
  | Call_SetProcessDPIAware
  | Call_EnumDisplayMonitors
  | Call_GetMonitorInfo HMONITOR
  | Call_GetDpiForMonitor HMONITOR
  | Call_CreateDC string
  | Call_DeleteDC HDC
  | Call_g_setenv string string

text \<open>
  What the file takes from outside: the Windows API, \<open>QLibrary::resolve\<close> and
  \<open>QString::number\<close>.
  \<^item> \<open>GetVersionEx\<close> receives the structure and gives back the \<open>BOOL\<close> result and the
    structure as the call leaves it;
  \<^item> \<open>QLibrary_resolve lib sym\<close> tells whether the export is found (a non-null pointer);
  \<^item> \<open>SetProcessDPIAware\<close> is the \<open>BOOL\<close> the call returns;
  \<^item> \<open>monitors\<close> are the display monitors in the order \<open>EnumDisplayMonitors\<close> visits them;
  \<^item> \<open>GetMonitorInfo\<close> is \<open>None\<close> when the call returns \<open>FALSE\<close>;
  \<^item> \<open>GetDpiForMonitor\<close> gives the \<open>HRESULT\<close> and the two values written through the
    out-pointers;
  \<^item> \<open>CreateDC\<close> gives the null handle on failure;
  \<^item> \<open>QString_number q\<close> is the text \<open>QString::number\<close> returns for the \<open>double\<close>
    nearest to \<open>q\<close>.
\<close>

record platform =
  GetVersionEx :: "OSVERSIONINFOEX \<Rightarrow> bool \<times> OSVERSIONINFOEX"
  QLibrary_resolve :: "string \<Rightarrow> string \<Rightarrow> bool"
  SetProcessDPIAware :: bool
  monitors :: "HMONITOR list"
  GetMonitorInfo :: "HMONITOR \<Rightarrow> MONITORINFOEX option"
  GetDpiForMonitor :: "HMONITOR \<Rightarrow> HRESULT \<times> UINT \<times> UINT"
  CreateDC :: "string \<Rightarrow> HDC"
  GetDeviceCaps :: "HDC \<Rightarrow> int \<Rightarrow> 32 word"
  QString_number :: "qreal \<Rightarrow> string"

text \<open>
  The mutable state of the process: the file's statics (\<open>osver\<close>, \<open>osver_failure\<close>, the
  two function pointers, here whether they are non-null), the environment block, and the
  calls made so far.
\<close>

record process =
  osver :: OSVERSIONINFOEX
  osver_failure :: bool
  getDpiForMonitor :: bool
  setProcessDPIAware :: bool
  env :: "string \<rightharpoonup> string"
  trace :: "api_call list"

definition call :: "api_call \<Rightarrow> process \<Rightarrow> process" where
  "call c s = s\<lparr>trace := trace s @ [c]\<rparr>"

text \<open>The statics at program start: \<open>osver\<close> all zero, no failure, null pointers.\<close>

definition osver_zero :: OSVERSIONINFOEX where
  "osver_zero =
     \<lparr>dwOSVersionInfoSize = 0, dwMajorVersion = 0, dwMinorVersion = 0, dwBuildNumber = 0,
      dwPlatformId = 0, szCSDVersion = [], wServicePackMajor = 0, wServicePackMinor = 0,
      wSuiteMask = 0, wProductType = 0, wReserved = 0\<rparr>"

definition process_start :: "(string \<rightharpoonup> string) \<Rightarrow> process" where
  "process_start e =
     \<lparr>osver = osver_zero, osver_failure = False, getDpiForMonitor = False,
      setProcessDPIAware = False, env = e, trace = []\<rparr>"

section \<open>The version cache\<close>

definition isInitializedSystemVersion :: "process \<Rightarrow> bool" where
  "isInitializedSystemVersion s = (dwOSVersionInfoSize (osver s) \<noteq> 0)"

definition initializeSystemVersion :: "platform \<Rightarrow> process \<Rightarrow> process" where
  "initializeSystemVersion pf s =
     (if isInitializedSystemVersion s then s
      else
        let s1 = s\<lparr>osver := (osver s)\<lparr>dwOSVersionInfoSize := sizeof_OSVERSIONINFOEX\<rparr>\<rparr>;
            r = GetVersionEx pf (osver s1);
            s2 = call Call_GetVersionEx (s1\<lparr>osver := snd r\<rparr>)
        in if \<not> fst r then s2\<lparr>osver_failure := True\<rparr> else s2)"

text \<open>
  The macro \<open>OSVER_TO_NUM\<close>, on 32-bit unsigned operands: shifts and sums wrap.
  \<open>OSVER_SYS\<close> applies it to the cached fields; the 16-bit service pack is widened.
\<close>

definition OSVER_TO_NUM :: "unsigned \<Rightarrow> unsigned \<Rightarrow> unsigned \<Rightarrow> unsigned" where
  "OSVER_TO_NUM major minor patch = push_bit 20 major + push_bit 10 minor + patch"

definition OSVER_SYS :: "OSVERSIONINFOEX \<Rightarrow> unsigned" where
  "OSVER_SYS ver =
     OSVER_TO_NUM (dwMajorVersion ver) (dwMinorVersion ver) (ucast (wServicePackMajor ver))"

text \<open>\<open>_isAtLeastSystemVersion\<close> of the anonymous namespace.\<close>

definition priv_isAtLeastSystemVersion ::
  "platform \<Rightarrow> unsigned \<Rightarrow> unsigned \<Rightarrow> unsigned \<Rightarrow> process \<Rightarrow> bool \<times> process" where
  "priv_isAtLeastSystemVersion pf major minor patch s =
     (let s1 = initializeSystemVersion pf s in
      if osver_failure s1 then (False, s1)
      else if OSVER_SYS (osver s1) < OSVER_TO_NUM major minor patch then (False, s1)
      else (True, s1))"

text \<open>
  \<open>getSystemVersion\<close> writes through three out-pointers; \<open>out\<close> is what they point to
  before the call, the first component of the result what they point to after it.
\<close>

definition getSystemVersion ::
  "platform \<Rightarrow> unsigned \<times> unsigned \<times> unsigned \<Rightarrow> process \<Rightarrow>
   (unsigned \<times> unsigned \<times> unsigned) \<times> process" where
  "getSystemVersion pf out s =
     (let s1 = initializeSystemVersion pf s;
          (major1, minor1, patch1) = (if osver_failure s1 then (5, 1, 0) else out);
          major2 = dwMajorVersion (osver s1);
          minor2 = dwMinorVersion (osver s1);
          patch2 = ucast (wServicePackMajor (osver s1))
      in ((major2, minor2, patch2), s1))"

definition isAtLeastSystemVersion ::
  "platform \<Rightarrow> unsigned \<Rightarrow> unsigned \<Rightarrow> unsigned \<Rightarrow> process \<Rightarrow> bool \<times> process" where
  "isAtLeastSystemVersion pf major minor patch s =
     priv_isAtLeastSystemVersion pf major minor patch s"

definition isWindowsVistaOrHigher :: "platform \<Rightarrow> process \<Rightarrow> bool \<times> process" where
  "isWindowsVistaOrHigher pf s = priv_isAtLeastSystemVersion pf 6 0 0 s"

definition isWindows7OrHigher :: "platform \<Rightarrow> process \<Rightarrow> bool \<times> process" where
  "isWindows7OrHigher pf s = priv_isAtLeastSystemVersion pf 6 1 0 s"

definition isWindows8OrHigher :: "platform \<Rightarrow> process \<Rightarrow> bool \<times> process" where
  "isWindows8OrHigher pf s = priv_isAtLeastSystemVersion pf 6 2 0 s"

definition isWindows8Point1OrHigher :: "platform \<Rightarrow> process \<Rightarrow> bool \<times> process" where
  "isWindows8Point1OrHigher pf s = priv_isAtLeastSystemVersion pf 6 3 0 s"

section \<open>Reading the DPI of a monitor\<close>

definition SUCCEEDED :: "HRESULT \<Rightarrow> bool" where
  "SUCCEEDED hr = (0 \<le> sint hr)"

definition LOGPIXELSX :: int where
  "LOGPIXELSX = 88"

definition LOGPIXELSY :: int where
  "LOGPIXELSY = 90"

text \<open>
  \<open>monitorDPI\<close> calls through the pointer \<open>getDpiForMonitor\<close>.  It is reached only from
  \<open>fixQtHDPINonIntegerScaling\<close>, after the pointer was found non-null, so the call is the
  platform's \<open>GetDpiForMonitor\<close>.
\<close>

definition monitorDPI :: "platform \<Rightarrow> HMONITOR \<Rightarrow> process \<Rightarrow> QDpi \<times> process" where
  "monitorDPI pf hMonitor s =
     (let r = GetDpiForMonitor pf hMonitor;
          s1 = call (Call_GetDpiForMonitor hMonitor) s
      in if SUCCEEDED (fst r)
         then ((of_nat (unat (fst (snd r))), of_nat (unat (snd (snd r)))), s1)
         else ((0, 0), s1))"

definition deviceDPI :: "platform \<Rightarrow> HDC \<Rightarrow> QDpi" where
  "deviceDPI pf hdc =
     (of_int (sint (GetDeviceCaps pf hdc LOGPIXELSX)),
      of_int (sint (GetDeviceCaps pf hdc LOGPIXELSY)))"

text \<open>
  \<open>monitorData\<close>: the result is the returned \<open>bool\<close>, what \<open>dpi_out\<close> points to
  afterwards, and the process.
\<close>

definition monitorData ::
  "platform \<Rightarrow> HMONITOR \<Rightarrow> QDpi \<Rightarrow> process \<Rightarrow> bool \<times> QDpi \<times> process" where
  "monitorData pf hMonitor dpi_out s =
     (let s1 = call (Call_GetMonitorInfo hMonitor) s in
      case GetMonitorInfo pf hMonitor of
        None \<Rightarrow> (False, dpi_out, s1)
      | Some info \<Rightarrow>
          if szDevice info = ''WinDisc'' then (False, dpi_out, s1)
          else
            let (dpi, s2) = monitorDPI pf hMonitor s1 in
            if fst dpi \<noteq> 0 then (True, dpi, s2)
            else
              let hdc = CreateDC pf (szDevice info);
                  s3 = call (Call_CreateDC (szDevice info)) s2
              in if hdc \<noteq> 0
                 then (True, deviceDPI pf hdc, call (Call_DeleteDC hdc) s3)
                 else (False, dpi_out, s3))"

text \<open>
  \<open>monitorEnumCallback\<close>: \<open>data\<close> is what the \<open>LPARAM\<close> points to; the \<open>HDC\<close> and the
  rectangle it is handed are not used.
\<close>

definition monitorEnumCallback ::
  "platform \<Rightarrow> HMONITOR \<Rightarrow> QDpi \<Rightarrow> process \<Rightarrow> bool \<times> QDpi \<times> process" where
  "monitorEnumCallback pf hMonitor data s =
     (case monitorData pf hMonitor data s of
        (ok, data1, s1) \<Rightarrow> if ok then (False, data1, s1) else (True, data1, s1))"

text \<open>
  \<open>EnumDisplayMonitors\<close> calls the callback once for each monitor, in order, until the
  callback returns \<open>FALSE\<close>.
\<close>

fun enum_monitors ::
  "(HMONITOR \<Rightarrow> 'a \<Rightarrow> process \<Rightarrow> bool \<times> 'a \<times> process) \<Rightarrow> HMONITOR list \<Rightarrow> 'a \<Rightarrow>
   process \<Rightarrow> 'a \<times> process" where
  "enum_monitors cb [] p s = (p, s)"
| "enum_monitors cb (h # hs) p s =
     (case cb h p s of
        (continue, p1, s1) \<Rightarrow> if continue then enum_monitors cb hs p1 s1 else (p1, s1))"

declare enum_monitors.simps(2) [simp del]

definition EnumDisplayMonitors ::
  "platform \<Rightarrow> (HMONITOR \<Rightarrow> 'a \<Rightarrow> process \<Rightarrow> bool \<times> 'a \<times> process) \<Rightarrow> 'a \<Rightarrow>
   process \<Rightarrow> 'a \<times> process" where
  "EnumDisplayMonitors pf cb p s =
     enum_monitors cb (monitors pf) p (call Call_EnumDisplayMonitors s)"

definition readDPI :: "platform \<Rightarrow> QDpi \<Rightarrow> process \<Rightarrow> bool \<times> QDpi \<times> process" where
  "readDPI pf dpi s =
     (case EnumDisplayMonitors pf (monitorEnumCallback pf) dpi s of
        (dpi1, s1) \<Rightarrow> (fst dpi1 \<noteq> 0, dpi1, s1))"

section \<open>The scale factor\<close>

text \<open>\<open>qgetenv\<close> gives the empty byte array for a variable that is not set.\<close>

definition qgetenv :: "process \<Rightarrow> string \<Rightarrow> string" where
  "qgetenv s varName = (case env s varName of None \<Rightarrow> [] | Some v \<Rightarrow> v)"

text \<open>\<open>g_setenv\<close> of GLib, for a name and a value it accepts.\<close>

definition g_setenv :: "string \<Rightarrow> string \<Rightarrow> bool \<Rightarrow> process \<Rightarrow> process" where
  "g_setenv variable val overwrite s =
     (let s1 = call (Call_g_setenv variable val) s in
      if \<not> overwrite \<and> env s variable \<noteq> None then s1
      else s1\<lparr>env := (env s)(variable \<mapsto> val)\<rparr>)"

text \<open>
  A default-constructed \<open>QDpi\<close> holds two zeros.  In \<open>fixQtHDPINonIntegerScaling\<close>,
  \<open>scaling_factor\<close> is the exact quotient; the \<open>double\<close> the program computes is the
  one nearest to it, the argument \<open>QString_number\<close> is specified for.
\<close>

definition QDpi_default :: QDpi where
  "QDpi_default = (0, 0)"

definition fixQtHDPINonIntegerScaling :: "platform \<Rightarrow> process \<Rightarrow> bool \<times> process" where
  "fixQtHDPINonIntegerScaling pf s =
     (case isWindows8OrHigher pf s of
        (win8, s1) \<Rightarrow>
          if \<not> win8 then (False, s1)
          else if qgetenv s1 ''QT_SCALE_FACTOR'' \<noteq> [] then (True, s1)
          else if qgetenv s1 ''QT_AUTO_SCREEN_SCALE_FACTOR'' \<noteq> [] then (True, s1)
          else
            let p1 = QLibrary_resolve pf ''SHCore'' ''GetDpiForMonitor'';
                s2 = (call (Call_resolve ''SHCore'' ''GetDpiForMonitor'' p1) s1)
                       \<lparr>getDpiForMonitor := p1\<rparr>
            in if \<not> p1 then (False, s2)
               else
                 let p2 = QLibrary_resolve pf ''user32'' ''SetProcessDPIAware'';
                     s3 = (call (Call_resolve ''user32'' ''SetProcessDPIAware'' p2) s2)
                            \<lparr>setProcessDPIAware := p2\<rparr>
                 in if \<not> p2 then (False, s3)
                    else
                      \<comment> \<open>the \<open>BOOL\<close> that \<open>setProcessDPIAware()\<close> returns selects an empty branch\<close>
                      let s4 = call Call_SetProcessDPIAware s3 in
                      case readDPI pf QDpi_default s4 of
                        (found, dpi, s5) \<Rightarrow>
                          if \<not> found then (False, s5)
                          else if fst dpi \<le> 96 then (False, s5)
                          else
                            let scaling_factor = fst dpi / 96;
                                factor = QString_number pf scaling_factor
                            in (True, g_setenv ''QT_SCALE_FACTOR'' factor True s5))"

section \<open>Vocabulary of the statements\<close>

text \<open>The calls made between two states of the same run.\<close>

definition calls_during :: "process \<Rightarrow> process \<Rightarrow> api_call list" where
  "calls_during s s' = drop (length (trace s)) (trace s')"

text \<open>The calls that inspect one of the monitors \<open>ms\<close> or a device context.\<close>

definition display_call :: "HMONITOR list \<Rightarrow> api_call \<Rightarrow> bool" where
  "display_call ms c =
     (case c of
        Call_GetMonitorInfo h \<Rightarrow> h \<in> set ms
      | Call_GetDpiForMonitor h \<Rightarrow> h \<in> set ms
      | Call_CreateDC n \<Rightarrow> True
      | Call_DeleteDC d \<Rightarrow> True
      | _ \<Rightarrow> False)"

text \<open>
  What \<open>monitorData\<close> finds for a monitor, as a function of the platform alone
  (lemma \<open>monitorData_probe\<close> relates the two).
\<close>

definition probe :: "platform \<Rightarrow> HMONITOR \<Rightarrow> QDpi option" where
  "probe pf h =
     (case GetMonitorInfo pf h of
        None \<Rightarrow> None
      | Some info \<Rightarrow>
          if szDevice info = ''WinDisc'' then None
          else if SUCCEEDED (fst (GetDpiForMonitor pf h)) \<and> fst (snd (GetDpiForMonitor pf h)) \<noteq> 0
          then Some (of_nat (unat (fst (snd (GetDpiForMonitor pf h)))),
                     of_nat (unat (snd (snd (GetDpiForMonitor pf h)))))
          else if CreateDC pf (szDevice info) \<noteq> 0
          then Some (deviceDPI pf (CreateDC pf (szDevice info)))
          else None)"

text \<open>
  The comparison the specification offers in place of the packed one: the lexicographic
  order on the triples (major, minor, patch).
\<close>

definition version_lex_ge ::
  "unsigned \<times> unsigned \<times> unsigned \<Rightarrow> unsigned \<times> unsigned \<times> unsigned \<Rightarrow> bool" where
  "version_lex_ge v w =
     (case v of (major, minor, patch) \<Rightarrow>
        case w of (major', minor', patch') \<Rightarrow>
          major' < major \<or>
          (major = major' \<and> (minor' < minor \<or> (minor = minor' \<and> patch' \<le> patch))))"

text \<open>A run of calls to the two public entry points of the version cache.\<close>

datatype version_request =
    GetSystemVersion "unsigned \<times> unsigned \<times> unsigned"
  | IsAtLeastSystemVersion unsigned unsigned unsigned

fun serve :: "platform \<Rightarrow> version_request \<Rightarrow> process \<Rightarrow> process" where
  "serve pf (GetSystemVersion out) s = snd (getSystemVersion pf out s)"
| "serve pf (IsAtLeastSystemVersion major minor patch) s =
     snd (isAtLeastSystemVersion pf major minor patch s)"

fun serve_all :: "platform \<Rightarrow> version_request list \<Rightarrow> process \<Rightarrow> process" where
  "serve_all pf [] s = s"
| "serve_all pf (r # rs) s = serve_all pf rs (serve pf r s)"

section \<open>Example platforms\<close>

text \<open>
  \<open>QString::number(double)\<close> formats with \<open>'g'\<close> and precision 6 in the C locale: six
  significant digits, trailing zeros dropped, \<open>'.'\<close> as the decimal separator, and the
  exponent form when the decimal exponent is below \<open>-4\<close> or at least \<open>6\<close>.
  \<open>number_g6\<close> is that rendering of an exact quotient, with ties rounded to even as the C
  library does.  It stands for \<open>QString::number\<close> in the example platforms only; the
  theorems hold for every \<open>QString_number\<close>.
\<close>

definition digit_char :: "int \<Rightarrow> char" where
  "digit_char d = (if 0 \<le> d \<and> d < 10 then ''0123456789'' ! nat d else CHR ''?'')"

function digits10 :: "int \<Rightarrow> int list" where
  "digits10 n = (if n < 10 then [n] else digits10 (n div 10) @ [n mod 10])"
  by pat_completeness auto
termination
  by (relation "measure nat") auto

declare digits10.simps [simp del]

function frac_exponent :: "int \<Rightarrow> int \<Rightarrow> int" where
  "frac_exponent a b = (if a \<le> 0 \<or> b \<le> a then 0 else 1 + frac_exponent (10 * a) b)"
  by pat_completeness auto
termination
  by (relation "measure (\<lambda>(a, b). nat (b - a))") auto

declare frac_exponent.simps [simp del]

definition decimal_exponent :: "int \<Rightarrow> int \<Rightarrow> int" where
  "decimal_exponent a b =
     (if b \<le> a then int (length (digits10 (a div b))) - 1 else - frac_exponent a b)"

definition round_half_even :: "int \<Rightarrow> int \<Rightarrow> int" where
  "round_half_even num den =
     (let n = num div den; r = num mod den
      in if den < 2 * r \<or> (2 * r = den \<and> odd n) then n + 1 else n)"

definition strip_zeros :: "int list \<Rightarrow> int list" where
  "strip_zeros ds = rev (dropWhile (\<lambda>d. d = 0) (rev ds))"

definition exponent_text :: "int \<Rightarrow> string" where
  "exponent_text e =
     (if e < 0 then ''e-'' else ''e+'') @ (if \<bar>e\<bar> < 10 then ''0'' else []) @
     map digit_char (digits10 \<bar>e\<bar>)"

definition number_g6_pos :: "int \<Rightarrow> int \<Rightarrow> string" where
  "number_g6_pos a b =
     (let e0 = decimal_exponent a b;
          n0 = (if e0 \<le> 5 then round_half_even (a * 10 ^ nat (5 - e0)) b
                else round_half_even a (b * 10 ^ nat (e0 - 5)));
          n = (if n0 = 1000000 then 100000 else n0);
          e = (if n0 = 1000000 then e0 + 1 else e0);
          ds = digits10 n;
          sig = strip_zeros ds
      in if e < - 4 \<or> 6 \<le> e
         then map digit_char (take 1 sig) @
              (if length sig \<le> 1 then [] else CHR ''.'' # map digit_char (drop 1 sig)) @
              exponent_text e
         else if 0 \<le> e
         then map digit_char (take (nat (e + 1)) ds) @
              (let fr = strip_zeros (drop (nat (e + 1)) ds)
               in if fr = [] then [] else CHR ''.'' # map digit_char fr)
         else ''0.'' @ replicate (nat (- e - 1)) CHR ''0'' @ map digit_char sig)"

definition number_g6 :: "rat \<Rightarrow> string" where
  "number_g6 q =
     (let (a, b) = quotient_of q
      in if a = 0 then ''0''
         else if a < 0 then CHR ''-'' # number_g6_pos (- a) b
         else number_g6_pos a b)"

text \<open>
  Windows 8.1 (version 6.3, no service pack) with both entry points present and one
  monitor at 144 DPI.
\<close>

definition windows_81 :: platform where
  "windows_81 =
     \<lparr>GetVersionEx = (\<lambda>v. (True, v\<lparr>dwMajorVersion := 6, dwMinorVersion := 3,
                                     dwBuildNumber := 9600, dwPlatformId := 2\<rparr>)),
      QLibrary_resolve = (\<lambda>lib sym. (lib = ''SHCore'' \<and> sym = ''GetDpiForMonitor'') \<or>
                                     (lib = ''user32'' \<and> sym = ''SetProcessDPIAware'')),
      SetProcessDPIAware = True,
      monitors = [1],
      GetMonitorInfo = (\<lambda>h. Some \<lparr>cbSize = 72, dwFlags = 1, szDevice = ''DISPLAY1''\<rparr>),
      GetDpiForMonitor = (\<lambda>h. (0, 144, 144)),
      CreateDC = (\<lambda>n. 7),
      GetDeviceCaps = (\<lambda>hdc i. 96),
      QString_number = number_g6\<rparr>"

text \<open>The same machine when \<open>GetVersionEx\<close> fails and leaves the structure as passed.\<close>

definition query_fails :: platform where
  "query_fails = windows_81\<lparr>GetVersionEx := (\<lambda>v. (False, v))\<rparr>"

text \<open>The same machine without the export \<open>GetDpiForMonitor\<close> in \<open>SHCore\<close>.\<close>

definition no_shcore :: platform where
  "no_shcore =
     windows_81\<lparr>QLibrary_resolve := (\<lambda>lib sym. lib = ''user32'' \<and> sym = ''SetProcessDPIAware'')\<rparr>"

text \<open>The same machine with the monitor at \<open>x\<close> DPI.\<close>

definition monitor_at :: "UINT \<Rightarrow> platform" where
  "monitor_at x = windows_81\<lparr>GetDpiForMonitor := (\<lambda>h. (0, x, x))\<rparr>"

text \<open>The same machine when the only monitor is the disconnected pseudo-monitor.\<close>

definition only_sentinel :: platform where
  "only_sentinel =
     windows_81\<lparr>GetMonitorInfo := (\<lambda>h. Some \<lparr>cbSize = 72, dwFlags = 1, szDevice = ''WinDisc''\<rparr>)\<rparr>"

text \<open>
  Three monitors: the pseudo-monitor, then one whose per-monitor query fails and whose
  device context reports 0 for \<open>LOGPIXELSX\<close>, then one at 144 DPI.
\<close>

definition three_monitors :: platform where
  "three_monitors =
     windows_81
       \<lparr>monitors := [1, 2, 3],
        GetMonitorInfo := (\<lambda>h. Some \<lparr>cbSize = 72, dwFlags = 0,
                                       szDevice = (if h = 1 then ''WinDisc''
                                                   else if h = 2 then ''DISPLAY2''
                                                   else ''DISPLAY3'')\<rparr>),
        GetDpiForMonitor := (\<lambda>h. if h = 3 then (0, 144, 144) else (- 1, 0, 0)),
        CreateDC := (\<lambda>n. if n = ''DISPLAY2'' then 7 else 0),
        GetDeviceCaps := (\<lambda>hdc i. if i = LOGPIXELSY then 96 else 0)\<rparr>"


section \<open>Lemmas about the version cache\<close>

lemma trace_initializeSystemVersion:
  "trace (initializeSystemVersion pf s) =
     trace s @ (if isInitializedSystemVersion s then [] else [Call_GetVersionEx])"
  by (simp add: initializeSystemVersion_def Let_def call_def)

lemma env_initializeSystemVersion: "env (initializeSystemVersion pf s) = env s"
  by (simp add: initializeSystemVersion_def Let_def call_def)

lemma initializeSystemVersion_again:
  "isInitializedSystemVersion s \<Longrightarrow> initializeSystemVersion pf s = s"
  by (simp add: initializeSystemVersion_def)

lemma initializeSystemVersion_initializes:
  assumes "\<forall>v. dwOSVersionInfoSize (snd (GetVersionEx pf v)) = dwOSVersionInfoSize v"
  shows "isInitializedSystemVersion (initializeSystemVersion pf s)"
  using assms
  by (simp add: initializeSystemVersion_def isInitializedSystemVersion_def Let_def call_def
      sizeof_OSVERSIONINFOEX_def)

lemma snd_priv_isAtLeastSystemVersion:
  "snd (priv_isAtLeastSystemVersion pf major minor patch s) = initializeSystemVersion pf s"
  by (simp add: priv_isAtLeastSystemVersion_def Let_def)

lemma snd_getSystemVersion: "snd (getSystemVersion pf out s) = initializeSystemVersion pf s"
  by (simp add: getSystemVersion_def Let_def split: prod.splits)

lemma fst_getSystemVersion:
  "fst (getSystemVersion pf out s) =
     (dwMajorVersion (osver (initializeSystemVersion pf s)),
      dwMinorVersion (osver (initializeSystemVersion pf s)),
      ucast (wServicePackMajor (osver (initializeSystemVersion pf s))))"
  by (simp add: getSystemVersion_def Let_def split: prod.splits)

lemma serve_eq: "serve pf r s = initializeSystemVersion pf s"
  by (cases r)
    (simp_all add: snd_priv_isAtLeastSystemVersion snd_getSystemVersion
      isAtLeastSystemVersion_def)

lemma serve_all_initialized: "isInitializedSystemVersion s \<Longrightarrow> serve_all pf rs s = s"
  by (induction rs arbitrary: s) (simp_all add: serve_eq initializeSystemVersion_again)

lemma snd_isWindows8OrHigher: "snd (isWindows8OrHigher pf s) = initializeSystemVersion pf s"
  by (simp add: isWindows8OrHigher_def snd_priv_isAtLeastSystemVersion)

lemma isWindows8OrHigher_passed:
  "fst (isWindows8OrHigher pf s) \<Longrightarrow>
     isWindows8OrHigher pf s = (True, initializeSystemVersion pf s)"
  using snd_isWindows8OrHigher [of pf s] by (cases "isWindows8OrHigher pf s") auto

lemma qgetenv_initializeSystemVersion:
  "qgetenv (initializeSystemVersion pf s) n = qgetenv s n"
  by (simp add: qgetenv_def env_initializeSystemVersion)

lemma unat_OSVER_TO_NUM:
  assumes "major < 1024" "minor < 1024" "patch < 1024"
  shows "unat (OSVER_TO_NUM major minor patch) =
           unat major * 1048576 + unat minor * 1024 + unat patch"
proof -
  have small: "unat major < 1024" "unat minor < 1024" "unat patch < 1024"
    using assms by (simp_all add: word_less_nat_alt)
  show ?thesis
    unfolding OSVER_TO_NUM_def push_bit_eq_mult
    using small by (simp add: unat_word_ariths)
qed

section \<open>Lemmas about the monitor enumeration\<close>

lemma calls_during_append: "trace s' = trace s @ evs \<Longrightarrow> calls_during s s' = evs"
  by (simp add: calls_during_def)

lemma trace_monitorData:
  "\<exists>evs. trace (snd (snd (monitorData pf h d s))) = trace s @ evs \<and>
     set evs \<subseteq> {Call_GetMonitorInfo h, Call_GetDpiForMonitor h} \<union> range Call_CreateDC \<union>
               range Call_DeleteDC"
  by (auto simp add: monitorData_def monitorDPI_def call_def Let_def
      split: option.splits prod.splits)

lemma env_monitorData: "env (snd (snd (monitorData pf h d s))) = env s"
  by (auto simp add: monitorData_def monitorDPI_def call_def Let_def
      split: option.splits prod.splits)

lemma monitorData_probe:
  "fst (monitorData pf h d s) = (probe pf h \<noteq> None)"
  "fst (snd (monitorData pf h d s)) = (case probe pf h of None \<Rightarrow> d | Some x \<Rightarrow> x)"
  by (auto simp add: monitorData_def monitorDPI_def probe_def Let_def unsigned_eq_0_iff
      split: option.splits prod.splits)

lemma enum_monitors_Cons:
  "enum_monitors (monitorEnumCallback pf) (h # hs) d s =
     (case monitorData pf h d s of
        (ok, d1, s1) \<Rightarrow>
          if ok then (d1, s1) else enum_monitors (monitorEnumCallback pf) hs d1 s1)"
  by (simp add: enum_monitors.simps(2) monitorEnumCallback_def split: prod.splits)

lemma trace_enum_monitors:
  "\<exists>evs. trace (snd (enum_monitors (monitorEnumCallback pf) ms d s)) = trace s @ evs \<and>
     (\<forall>c\<in>set evs. display_call ms c)"
proof (induction ms arbitrary: d s)
  case Nil
  show ?case by simp
next
  case (Cons h hs)
  obtain ok d1 s1 where md: "monitorData pf h d s = (ok, d1, s1)"
    by (cases "monitorData pf h d s") auto
  from trace_monitorData [of pf h d s] md obtain e1 where
    e1: "trace s1 = trace s @ e1"
      "set e1 \<subseteq> {Call_GetMonitorInfo h, Call_GetDpiForMonitor h} \<union> range Call_CreateDC \<union>
                range Call_DeleteDC"
    by auto
  have d1: "\<forall>c\<in>set e1. display_call (h # hs) c"
    using e1(2) by (auto simp add: display_call_def)
  show ?case
  proof (cases ok)
    case True
    then show ?thesis using md e1(1) d1 by (simp add: enum_monitors_Cons)
  next
    case False
    from Cons.IH [of d1 s1] obtain e2 where
      e2: "trace (snd (enum_monitors (monitorEnumCallback pf) hs d1 s1)) = trace s1 @ e2"
        "\<forall>c\<in>set e2. display_call hs c"
      by auto
    have "\<forall>c\<in>set e2. display_call (h # hs) c"
      using e2(2) by (auto simp add: display_call_def split: api_call.splits)
    then show ?thesis using False md e1(1) d1 e2(1) by (auto simp add: enum_monitors_Cons)
  qed
qed

lemma env_enum_monitors: "env (snd (enum_monitors (monitorEnumCallback pf) ms d s)) = env s"
proof (induction ms arbitrary: d s)
  case Nil
  show ?case by simp
next
  case (Cons h hs)
  obtain ok d1 s1 where md: "monitorData pf h d s = (ok, d1, s1)"
    by (cases "monitorData pf h d s") auto
  have "env s1 = env s" using env_monitorData [of pf h d s] md by simp
  then show ?case using md Cons.IH [of d1 s1] by (simp add: enum_monitors_Cons)
qed

lemma readDPI_projections:
  "readDPI pf d s =
     (fst (fst (EnumDisplayMonitors pf (monitorEnumCallback pf) d s)) \<noteq> 0,
      fst (EnumDisplayMonitors pf (monitorEnumCallback pf) d s),
      snd (EnumDisplayMonitors pf (monitorEnumCallback pf) d s))"
  by (simp add: readDPI_def split: prod.splits)

lemma trace_readDPI:
  "\<exists>evs. trace (snd (snd (readDPI pf d s))) = trace s @ Call_EnumDisplayMonitors # evs \<and>
     (\<forall>c\<in>set evs. display_call (monitors pf) c)"
  using trace_enum_monitors [of pf "monitors pf" d "call Call_EnumDisplayMonitors s"]
  by (auto simp add: readDPI_projections EnumDisplayMonitors_def call_def)

lemma env_readDPI: "env (snd (snd (readDPI pf d s))) = env s"
  using env_enum_monitors [of pf "monitors pf" d "call Call_EnumDisplayMonitors s"]
  by (simp add: readDPI_projections EnumDisplayMonitors_def call_def)

text \<open>Monitors without data are passed over; the first one with data ends the walk.\<close>

lemma enum_monitors_skip:
  assumes "\<forall>h'\<in>set pre. probe pf h' = None"
  shows "\<exists>s1. enum_monitors (monitorEnumCallback pf) (pre @ rest) d s =
           enum_monitors (monitorEnumCallback pf) rest d s1 \<and>
           enum_monitors (monitorEnumCallback pf) pre d s = (d, s1)"
  using assms
proof (induction pre arbitrary: s)
  case Nil
  show ?case by simp
next
  case (Cons h hs)
  obtain ok d1 s1 where md: "monitorData pf h d s = (ok, d1, s1)"
    by (cases "monitorData pf h d s") auto
  have "probe pf h = None" using Cons.prems by simp
  then have "\<not> ok" "d1 = d"
    using monitorData_probe [of pf h d s] md by simp_all
  then show ?case using md Cons.IH [of s1] Cons.prems
    by (simp add: enum_monitors_Cons)
qed

lemma enum_monitors_stop:
  assumes "probe pf h \<noteq> None"
  shows "enum_monitors (monitorEnumCallback pf) (h # post) d s =
         (fst (snd (monitorData pf h d s)), snd (snd (monitorData pf h d s)))"
  using assms monitorData_probe(1) [of pf h d s]
  by (cases "monitorData pf h d s") (simp add: enum_monitors_Cons)

lemma fst_enum_monitors_state:
  "fst (enum_monitors (monitorEnumCallback pf) ms d s) =
   fst (enum_monitors (monitorEnumCallback pf) ms d s')"
proof (induction ms arbitrary: s s')
  case Nil
  show ?case by simp
next
  case (Cons h hs)
  obtain ok d1 s1 where md: "monitorData pf h d s = (ok, d1, s1)"
    by (cases "monitorData pf h d s") auto
  obtain ok' d1' s1' where md': "monitorData pf h d s' = (ok', d1', s1')"
    by (cases "monitorData pf h d s'") auto
  have same: "ok' = ok" "d1' = d1"
    using monitorData_probe [of pf h d s] monitorData_probe [of pf h d s'] md md' by simp_all
  show ?case
  proof (cases ok)
    case True
    then show ?thesis using same md md' by (simp add: enum_monitors_Cons)
  next
    case False
    then have "d1 = d"
      using monitorData_probe [of pf h d s] md by (cases "probe pf h") simp_all
    then show ?thesis using False same md md' Cons.IH [of s1 s1']
      by (simp add: enum_monitors_Cons)
  qed
qed

lemma readDPI_state:
  "fst (readDPI pf d s) = fst (readDPI pf d s')"
  "fst (snd (readDPI pf d s)) = fst (snd (readDPI pf d s'))"
  using fst_enum_monitors_state [of pf "monitors pf" d "call Call_EnumDisplayMonitors s"
      "call Call_EnumDisplayMonitors s'"]
  by (simp_all add: readDPI_projections EnumDisplayMonitors_def)

lemma monitorDPI_monitors: "monitorDPI (pf\<lparr>monitors := ms\<rparr>) h s = monitorDPI pf h s"
  by (simp add: monitorDPI_def)

lemma deviceDPI_monitors: "deviceDPI (pf\<lparr>monitors := ms\<rparr>) hdc = deviceDPI pf hdc"
  by (simp add: deviceDPI_def)

lemma monitorData_monitors:
  "monitorData (pf\<lparr>monitors := ms\<rparr>) h d s = monitorData pf h d s"
  by (auto simp add: monitorData_def monitorDPI_monitors deviceDPI_monitors Let_def
      split: option.splits prod.splits)

lemma monitorEnumCallback_monitors:
  "monitorEnumCallback (pf\<lparr>monitors := ms\<rparr>) = monitorEnumCallback pf"
  by (rule ext)+ (simp add: monitorEnumCallback_def monitorData_monitors)

section \<open>The orchestrator, gate by gate\<close>

text \<open>
  \<open>fixQtHDPINonIntegerScaling\<close> with the intermediate states named: \<open>s1\<close> after the
  version gate, \<open>s2\<close> and \<open>s3\<close> after the two look-ups, \<open>s4\<close> after
  \<open>SetProcessDPIAware\<close>.
\<close>

lemma fixQtHDPINonIntegerScaling_gates:
  fixes pf s
  defines "s1 \<equiv> initializeSystemVersion pf s"
  defines "p1 \<equiv> QLibrary_resolve pf ''SHCore'' ''GetDpiForMonitor''"
  defines "p2 \<equiv> QLibrary_resolve pf ''user32'' ''SetProcessDPIAware''"
  defines "s2 \<equiv> (call (Call_resolve ''SHCore'' ''GetDpiForMonitor'' p1) s1)
                   \<lparr>getDpiForMonitor := p1\<rparr>"
  defines "s3 \<equiv> (call (Call_resolve ''user32'' ''SetProcessDPIAware'' p2) s2)
                   \<lparr>setProcessDPIAware := p2\<rparr>"
  defines "s4 \<equiv> call Call_SetProcessDPIAware s3"
  shows "fixQtHDPINonIntegerScaling pf s =
      (if \<not> fst (isWindows8OrHigher pf s) then (False, s1)
       else if qgetenv s ''QT_SCALE_FACTOR'' \<noteq> [] then (True, s1)
       else if qgetenv s ''QT_AUTO_SCREEN_SCALE_FACTOR'' \<noteq> [] then (True, s1)
       else if \<not> p1 then (False, s2)
       else if \<not> p2 then (False, s3)
       else if \<not> fst (readDPI pf QDpi_default s4)
         then (False, snd (snd (readDPI pf QDpi_default s4)))
       else if fst (fst (snd (readDPI pf QDpi_default s4))) \<le> 96
         then (False, snd (snd (readDPI pf QDpi_default s4)))
       else (True, g_setenv ''QT_SCALE_FACTOR''
               (QString_number pf (fst (fst (snd (readDPI pf QDpi_default s4))) / 96)) True
               (snd (snd (readDPI pf QDpi_default s4)))))"
proof -
  have w: "isWindows8OrHigher pf s = (fst (isWindows8OrHigher pf s), s1)"
    using snd_isWindows8OrHigher [of pf s]
    by (cases "isWindows8OrHigher pf s") (simp add: s1_def)
  have q: "\<And>n. qgetenv s1 n = qgetenv s n"
    by (simp add: s1_def qgetenv_initializeSystemVersion)
  show ?thesis
    unfolding fixQtHDPINonIntegerScaling_def
    by (subst w)
      (simp add: Let_def p1_def p2_def s2_def s3_def s4_def q split: prod.splits)
qed


section \<open>Evaluating the example platforms\<close>

lemmas version_defs =
  isAtLeastSystemVersion_def priv_isAtLeastSystemVersion_def isWindows8OrHigher_def
  getSystemVersion_def initializeSystemVersion_def isInitializedSystemVersion_def
  process_start_def osver_zero_def call_def sizeof_OSVERSIONINFOEX_def OSVER_SYS_def
  OSVER_TO_NUM_def Let_def

lemmas dpi_defs =
  readDPI_def EnumDisplayMonitors_def monitorEnumCallback_def monitorData_def monitorDPI_def
  deviceDPI_def SUCCEEDED_def LOGPIXELSX_def LOGPIXELSY_def QDpi_default_def
  enum_monitors.simps call_def Let_def

lemmas platform_defs =
  windows_81_def query_fails_def no_shcore_def monitor_at_def only_sentinel_def
  three_monitors_def

lemma process_start_fields:
  "osver (process_start e) = osver_zero"
  "osver_failure (process_start e) = False"
  "env (process_start e) = e"
  "trace (process_start e) = []"
  by (simp_all add: process_start_def)

lemma number_g6_examples:
  "number_g6 (3 / 2) = ''1.5''"
  "number_g6 2 = ''2''"
  by code_simp+

lemma initializeSystemVersion_windows_81:
  "initializeSystemVersion windows_81 (process_start e) =
     \<lparr>osver = osver_zero\<lparr>dwOSVersionInfoSize := 156, dwMajorVersion := 6,
                          dwMinorVersion := 3, dwBuildNumber := 9600, dwPlatformId := 2\<rparr>,
      osver_failure = False, getDpiForMonitor = False, setProcessDPIAware = False, env = e,
      trace = [Call_GetVersionEx]\<rparr>"
  by (simp add: version_defs windows_81_def)

lemma initializeSystemVersion_monitor_at:
  "initializeSystemVersion (monitor_at x) s = initializeSystemVersion windows_81 s"
  by (simp add: initializeSystemVersion_def monitor_at_def)

lemma isWindows8OrHigher_windows_81:
  "isWindows8OrHigher windows_81 (process_start e) =
     (True, initializeSystemVersion windows_81 (process_start e))"
  by (simp add: isWindows8OrHigher_def priv_isAtLeastSystemVersion_def
      initializeSystemVersion_windows_81 OSVER_SYS_def OSVER_TO_NUM_def osver_zero_def)

lemma isWindows8OrHigher_monitor_at:
  "isWindows8OrHigher (monitor_at x) (process_start e) =
     (True, initializeSystemVersion windows_81 (process_start e))"
  using isWindows8OrHigher_windows_81 [of e]
  by (simp add: isWindows8OrHigher_def priv_isAtLeastSystemVersion_def
      initializeSystemVersion_monitor_at)

lemma readDPI_monitor_at:
  "x \<noteq> 0 \<Longrightarrow> readDPI (monitor_at x) QDpi_default s =
     (True, (of_nat (unat x), of_nat (unat x)),
      s\<lparr>trace := trace s @ [Call_EnumDisplayMonitors, Call_GetMonitorInfo 1,
                              Call_GetDpiForMonitor 1]\<rparr>)"
  by (simp add: dpi_defs monitor_at_def windows_81_def unsigned_eq_0_iff)

section \<open>The claims\<close>

text \<open>
  C1.  The claim: when the version query fails, \<open>getSystemVersion\<close> hands its callers
  the fallback version (5, 1, 0).  The code assigns 5, 1, 0 and then overwrites all three
  outputs with the fields of \<open>osver\<close>.  Evaluated here on a platform whose
  \<open>GetVersionEx\<close> fails and leaves the zeroed structure as it was: the failure is
  recorded, and the caller receives (0, 0, 0), whatever the outputs held before.
\<close>

theorem getSystemVersion_query_failure_returns_zero:
  "fst (getSystemVersion query_fails (7, 7, 7) (process_start Map.empty)) = (0, 0, 0) \<and>
   osver_failure (snd (getSystemVersion query_fails (7, 7, 7) (process_start Map.empty))) \<and>
   fst (getSystemVersion query_fails (7, 7, 7)
          (snd (getSystemVersion query_fails (7, 7, 7) (process_start Map.empty)))) = (0, 0, 0)"
  by (simp add: version_defs platform_defs)

text \<open>
  C2.  If the version query failed, \<open>isAtLeastSystemVersion\<close> answers \<open>false\<close> for
  every requested triple.  The query has failed when the flag \<open>osver_failure\<close> is set,
  or when the cache is still empty and the query this call makes fails.
\<close>

theorem isAtLeastSystemVersion_false_after_failure:
  assumes "osver_failure s \<or>
           (\<not> isInitializedSystemVersion s \<and>
            \<not> fst (GetVersionEx pf
                     ((osver s)\<lparr>dwOSVersionInfoSize := sizeof_OSVERSIONINFOEX\<rparr>)))"
  shows "\<not> fst (isAtLeastSystemVersion pf major minor patch s)"
  using assms
  by (auto simp add: isAtLeastSystemVersion_def priv_isAtLeastSystemVersion_def
      initializeSystemVersion_def call_def Let_def)

theorem isAtLeastSystemVersion_false_after_failure_witness:
  "\<not> isInitializedSystemVersion (process_start Map.empty) \<and>
   \<not> fst (GetVersionEx query_fails
            ((osver (process_start Map.empty))
               \<lparr>dwOSVersionInfoSize := sizeof_OSVERSIONINFOEX\<rparr>)) \<and>
   \<not> fst (isAtLeastSystemVersion query_fails 0 0 0 (process_start Map.empty))"
proof -
  have h: "osver_failure (process_start Map.empty) \<or>
           (\<not> isInitializedSystemVersion (process_start Map.empty) \<and>
            \<not> fst (GetVersionEx query_fails
                     ((osver (process_start Map.empty))
                        \<lparr>dwOSVersionInfoSize := sizeof_OSVERSIONINFOEX\<rparr>)))"
    by (simp add: isInitializedSystemVersion_def process_start_def osver_zero_def
        platform_defs)
  show ?thesis
    using h isAtLeastSystemVersion_false_after_failure [OF h, of 0 0 0]
    by (simp add: isInitializedSystemVersion_def process_start_def osver_zero_def)
qed

text \<open>
  C3.  With a version cached without failure, \<open>isAtLeastSystemVersion\<close> answers
  \<open>true\<close> for every requested triple whose packed number is at most the packed number of
  the cached triple, \<open>false\<close> for every requested triple whose packed number is above it,
  and \<open>true\<close> at the cached triple itself.
\<close>

theorem isAtLeastSystemVersion_packed_order:
  assumes "\<not> osver_failure (initializeSystemVersion pf s)"
    and "cached = osver (initializeSystemVersion pf s)"
  shows "(OSVER_TO_NUM major minor patch \<le> OSVER_SYS cached \<longrightarrow>
            fst (isAtLeastSystemVersion pf major minor patch s)) \<and>
         (OSVER_SYS cached < OSVER_TO_NUM major minor patch \<longrightarrow>
            \<not> fst (isAtLeastSystemVersion pf major minor patch s)) \<and>
         fst (isAtLeastSystemVersion pf (dwMajorVersion cached) (dwMinorVersion cached)
                (ucast (wServicePackMajor cached)) s)"
  using assms
  by (auto simp add: isAtLeastSystemVersion_def priv_isAtLeastSystemVersion_def Let_def
      OSVER_SYS_def)

theorem isAtLeastSystemVersion_packed_order_witness:
  "\<not> osver_failure (initializeSystemVersion windows_81 (process_start Map.empty)) \<and>
   fst (isAtLeastSystemVersion windows_81 6 2 0 (process_start Map.empty)) \<and>
   \<not> fst (isAtLeastSystemVersion windows_81 6 3 1 (process_start Map.empty)) \<and>
   fst (isAtLeastSystemVersion windows_81 6 3 0 (process_start Map.empty))"
proof -
  let ?s = "process_start Map.empty"
  have h: "\<not> osver_failure (initializeSystemVersion windows_81 ?s)"
    by (simp add: initializeSystemVersion_windows_81)
  have c: "osver (initializeSystemVersion windows_81 ?s) =
             osver (initializeSystemVersion windows_81 ?s)"
    by simp
  show ?thesis
    using h isAtLeastSystemVersion_packed_order [OF h c, of 6 2 0]
      isAtLeastSystemVersion_packed_order [OF h c, of 6 3 1]
    by (simp add: initializeSystemVersion_windows_81 OSVER_SYS_def OSVER_TO_NUM_def
        osver_zero_def)
qed

text \<open>
  C4.  For triples whose components are all below \<open>2^10\<close>, comparing the packed numbers
  \<open>(major << 20) + (minor << 10) + patch\<close> gives the same answer as comparing the triples
  lexicographically.
\<close>

theorem OSVER_TO_NUM_order_lexicographic:
  assumes "major < 1024" "minor < 1024" "patch < 1024"
    and "major' < 1024" "minor' < 1024" "patch' < 1024"
  shows "(OSVER_TO_NUM major' minor' patch' \<le> OSVER_TO_NUM major minor patch) =
         version_lex_ge (major, minor, patch) (major', minor', patch')"
proof -
  have small: "unat major < 1024" "unat minor < 1024" "unat patch < 1024"
    "unat major' < 1024" "unat minor' < 1024" "unat patch' < 1024"
    using assms by (simp_all add: word_less_nat_alt)
  show ?thesis
    unfolding version_lex_ge_def
    using small
    by (simp add: word_le_nat_alt word_less_nat_alt unat_OSVER_TO_NUM assms word_unat_eq_iff)
      arith
qed

theorem OSVER_TO_NUM_order_lexicographic_witness:
  "(10 :: unsigned) < 1024 \<and> (0 :: unsigned) < 1024 \<and> (6 :: unsigned) < 1024 \<and>
   (3 :: unsigned) < 1024 \<and>
   OSVER_TO_NUM 6 3 0 \<le> OSVER_TO_NUM 10 0 0 \<and> version_lex_ge (10, 0, 0) (6, 3, 0) \<and>
   \<not> OSVER_TO_NUM 10 0 0 \<le> OSVER_TO_NUM 6 3 0 \<and> \<not> version_lex_ge (6, 3, 0) (10, 0, 0)"
proof -
  have h: "(10 :: unsigned) < 1024" "(0 :: unsigned) < 1024" "(6 :: unsigned) < 1024"
    "(3 :: unsigned) < 1024"
    by simp_all
  show ?thesis
    using h OSVER_TO_NUM_order_lexicographic [OF h(1) h(2) h(2) h(3) h(4) h(2)]
      OSVER_TO_NUM_order_lexicographic [OF h(3) h(4) h(2) h(1) h(2) h(2)]
    by (simp add: version_lex_ge_def)
qed


text \<open>
  C5.  When the Windows 8 gate has passed and \<open>QT_SCALE_FACTOR\<close> or
  \<open>QT_AUTO_SCREEN_SCALE_FACTOR\<close> is already set to a non-empty value,
  \<open>fixQtHDPINonIntegerScaling\<close> returns \<open>true\<close> and the environment is what it was; the
  only call it can have made is the version query.
\<close>

theorem fixQtHDPINonIntegerScaling_keeps_user_override:
  assumes "fst (isWindows8OrHigher pf s)"
    and "qgetenv s ''QT_SCALE_FACTOR'' \<noteq> [] \<or> qgetenv s ''QT_AUTO_SCREEN_SCALE_FACTOR'' \<noteq> []"
  shows "fst (fixQtHDPINonIntegerScaling pf s) \<and>
         env (snd (fixQtHDPINonIntegerScaling pf s)) = env s \<and>
         set (calls_during s (snd (fixQtHDPINonIntegerScaling pf s))) \<subseteq> {Call_GetVersionEx}"
proof -
  have "fixQtHDPINonIntegerScaling pf s = (True, initializeSystemVersion pf s)"
    using assms by (auto simp add: fixQtHDPINonIntegerScaling_gates)
  then show ?thesis
    by (simp add: env_initializeSystemVersion
        calls_during_append [OF trace_initializeSystemVersion])
qed

theorem fixQtHDPINonIntegerScaling_keeps_user_override_witness:
  "fst (isWindows8OrHigher windows_81 (process_start [''QT_AUTO_SCREEN_SCALE_FACTOR'' \<mapsto> ''1''])) \<and>
   qgetenv (process_start [''QT_AUTO_SCREEN_SCALE_FACTOR'' \<mapsto> ''1''])
     ''QT_AUTO_SCREEN_SCALE_FACTOR'' \<noteq> [] \<and>
   fst (fixQtHDPINonIntegerScaling windows_81
          (process_start [''QT_AUTO_SCREEN_SCALE_FACTOR'' \<mapsto> ''1''])) \<and>
   env (snd (fixQtHDPINonIntegerScaling windows_81
          (process_start [''QT_AUTO_SCREEN_SCALE_FACTOR'' \<mapsto> ''1'']))) =
     [''QT_AUTO_SCREEN_SCALE_FACTOR'' \<mapsto> ''1'']"
proof -
  let ?s = "process_start [''QT_AUTO_SCREEN_SCALE_FACTOR'' \<mapsto> ''1'']"
  have h1: "fst (isWindows8OrHigher windows_81 ?s)"
    by (simp add: isWindows8OrHigher_windows_81)
  have h2: "qgetenv ?s ''QT_SCALE_FACTOR'' \<noteq> [] \<or>
            qgetenv ?s ''QT_AUTO_SCREEN_SCALE_FACTOR'' \<noteq> []"
    by (simp add: qgetenv_def process_start_def)
  show ?thesis
    using h1 fixQtHDPINonIntegerScaling_keeps_user_override [OF h1 h2]
    by (simp add: qgetenv_def process_start_def)
qed

text \<open>
  C6.  If, during a call of \<open>fixQtHDPINonIntegerScaling\<close>, the look-up of
  \<open>GetDpiForMonitor\<close> in \<open>SHCore\<close> or of \<open>SetProcessDPIAware\<close> in \<open>user32\<close> fails, the
  call returns \<open>false\<close>, the environment is what it was, and neither
  \<open>EnumDisplayMonitors\<close> nor \<open>g_setenv\<close> is called.
\<close>

theorem fixQtHDPINonIntegerScaling_capability_missing:
  assumes "Call_resolve ''SHCore'' ''GetDpiForMonitor'' False
             \<in> set (calls_during s (snd (fixQtHDPINonIntegerScaling pf s))) \<or>
           Call_resolve ''user32'' ''SetProcessDPIAware'' False
             \<in> set (calls_during s (snd (fixQtHDPINonIntegerScaling pf s)))"
  shows "\<not> fst (fixQtHDPINonIntegerScaling pf s) \<and>
         env (snd (fixQtHDPINonIntegerScaling pf s)) = env s \<and>
         Call_EnumDisplayMonitors
           \<notin> set (calls_during s (snd (fixQtHDPINonIntegerScaling pf s))) \<and>
         (\<forall>n v. Call_g_setenv n v
           \<notin> set (calls_during s (snd (fixQtHDPINonIntegerScaling pf s))))"
proof -
  define s1 where "s1 = initializeSystemVersion pf s"
  define p1 where "p1 = QLibrary_resolve pf ''SHCore'' ''GetDpiForMonitor''"
  define p2 where "p2 = QLibrary_resolve pf ''user32'' ''SetProcessDPIAware''"
  define s2 where
    "s2 = (call (Call_resolve ''SHCore'' ''GetDpiForMonitor'' p1) s1)\<lparr>getDpiForMonitor := p1\<rparr>"
  define s3 where
    "s3 = (call (Call_resolve ''user32'' ''SetProcessDPIAware'' p2) s2)\<lparr>setProcessDPIAware := p2\<rparr>"
  define s4 where "s4 = call Call_SetProcessDPIAware s3"
  note fx = fixQtHDPINonIntegerScaling_gates [of pf s, folded s1_def p1_def, folded s2_def p2_def,
      folded s3_def, folded s4_def]
  obtain ver where ver: "trace s1 = trace s @ ver" "set ver \<subseteq> {Call_GetVersionEx}"
    using trace_initializeSystemVersion [of pf s] by (auto simp add: s1_def)
  have e1: "env s1 = env s" by (simp add: s1_def env_initializeSystemVersion)
  have t2: "trace s2 = trace s @ ver @ [Call_resolve ''SHCore'' ''GetDpiForMonitor'' p1]"
    by (simp add: s2_def call_def ver(1))
  have t3: "trace s3 = trace s @ ver @ [Call_resolve ''SHCore'' ''GetDpiForMonitor'' p1,
              Call_resolve ''user32'' ''SetProcessDPIAware'' p2]"
    by (simp add: s3_def call_def t2)
  have e3: "env s2 = env s" "env s3 = env s"
    by (simp_all add: s2_def s3_def call_def e1)
  let ?r = "fixQtHDPINonIntegerScaling pf s"
  show ?thesis
  proof (cases "\<not> fst (isWindows8OrHigher pf s) \<or> qgetenv s ''QT_SCALE_FACTOR'' \<noteq> [] \<or>
                qgetenv s ''QT_AUTO_SCREEN_SCALE_FACTOR'' \<noteq> []")
    case True
    then have "snd ?r = s1" by (auto simp add: fx)
    then have "calls_during s (snd ?r) = ver"
      by (simp add: calls_during_append [OF ver(1)])
    then show ?thesis using assms ver(2) by auto
  next
    case gates: False
    show ?thesis
    proof (cases p1)
      case False
      then have r: "?r = (False, s2)" using gates by (simp add: fx)
      then have "calls_during s (snd ?r) =
          ver @ [Call_resolve ''SHCore'' ''GetDpiForMonitor'' False]"
        using t2 False by (simp add: calls_during_append)
      then show ?thesis using r ver(2) e3 by auto
    next
      case p1: True
      show ?thesis
      proof (cases p2)
        case False
        then have r: "?r = (False, s3)" using gates p1 by (simp add: fx)
        then have "calls_during s (snd ?r) =
            ver @ [Call_resolve ''SHCore'' ''GetDpiForMonitor'' True,
                   Call_resolve ''user32'' ''SetProcessDPIAware'' False]"
          using t3 p1 False by (simp add: calls_during_append)
        then show ?thesis using r ver(2) e3 by auto
      next
        case p2: True
        let ?s5 = "snd (snd (readDPI pf QDpi_default s4))"
        obtain evs where evs:
          "trace ?s5 = trace s4 @ Call_EnumDisplayMonitors # evs"
          "\<forall>c\<in>set evs. display_call (monitors pf) c"
          using trace_readDPI [of pf QDpi_default s4] by auto
        have t4: "trace s4 = trace s @ ver @ [Call_resolve ''SHCore'' ''GetDpiForMonitor'' True,
                  Call_resolve ''user32'' ''SetProcessDPIAware'' True, Call_SetProcessDPIAware]"
          using p1 p2 by (simp add: s4_def call_def t3)
        have nores: "\<And>l y. Call_resolve l y False \<notin> set evs"
          using evs(2) by (auto simp add: display_call_def)
        have "snd ?r = ?s5 \<or> (\<exists>v. snd ?r = g_setenv ''QT_SCALE_FACTOR'' v True ?s5)"
          using gates p1 p2 by (auto simp add: fx)
        then have "\<exists>tl. calls_during s (snd ?r) =
            ver @ [Call_resolve ''SHCore'' ''GetDpiForMonitor'' True,
                  Call_resolve ''user32'' ''SetProcessDPIAware'' True, Call_SetProcessDPIAware,
                  Call_EnumDisplayMonitors] @ evs @ tl \<and>
            (\<forall>c\<in>set tl. \<exists>n v. c = Call_g_setenv n v)"
          by (auto simp add: calls_during_def evs(1) t4 g_setenv_def call_def Let_def)
        then have False using assms ver(2) nores by auto
        then show ?thesis ..
      qed
    qed
  qed
qed

text \<open>
  Such a failed look-up is recorded whenever both earlier gates have passed and the
  platform lacks one of the two exports.
\<close>

lemma failed_lookup_recorded:
  assumes "fst (isWindows8OrHigher pf s)"
    and "qgetenv s ''QT_SCALE_FACTOR'' = []"
    and "qgetenv s ''QT_AUTO_SCREEN_SCALE_FACTOR'' = []"
    and "\<not> QLibrary_resolve pf ''SHCore'' ''GetDpiForMonitor'' \<or>
         \<not> QLibrary_resolve pf ''user32'' ''SetProcessDPIAware''"
  shows "Call_resolve ''SHCore'' ''GetDpiForMonitor'' False
           \<in> set (calls_during s (snd (fixQtHDPINonIntegerScaling pf s))) \<or>
         Call_resolve ''user32'' ''SetProcessDPIAware'' False
           \<in> set (calls_during s (snd (fixQtHDPINonIntegerScaling pf s)))"
proof (cases "QLibrary_resolve pf ''SHCore'' ''GetDpiForMonitor''")
  case False
  then show ?thesis
    using assms(1-3)
    by (simp add: fixQtHDPINonIntegerScaling_gates calls_during_def call_def
        trace_initializeSystemVersion)
next
  case True
  then show ?thesis
    using assms
    by (simp add: fixQtHDPINonIntegerScaling_gates calls_during_def call_def
        trace_initializeSystemVersion)
qed

lemma fixQtHDPINonIntegerScaling_no_shcore:
  "fixQtHDPINonIntegerScaling no_shcore (process_start e) =
     (False,
      \<lparr>osver = osver_zero\<lparr>dwOSVersionInfoSize := 156, dwMajorVersion := 6,
                          dwMinorVersion := 3, dwBuildNumber := 9600, dwPlatformId := 2\<rparr>,
       osver_failure = False, getDpiForMonitor = False, setProcessDPIAware = False, env = e,
       trace = [Call_GetVersionEx, Call_resolve ''SHCore'' ''GetDpiForMonitor'' False]\<rparr>)"
  if "e ''QT_SCALE_FACTOR'' = None" "e ''QT_AUTO_SCREEN_SCALE_FACTOR'' = None"
  using that
  by (simp add: fixQtHDPINonIntegerScaling_def qgetenv_def version_defs no_shcore_def
      windows_81_def)

theorem fixQtHDPINonIntegerScaling_capability_missing_witness:
  "Call_resolve ''SHCore'' ''GetDpiForMonitor'' False
     \<in> set (calls_during (process_start Map.empty)
              (snd (fixQtHDPINonIntegerScaling no_shcore (process_start Map.empty)))) \<and>
   \<not> fst (fixQtHDPINonIntegerScaling no_shcore (process_start Map.empty)) \<and>
   env (snd (fixQtHDPINonIntegerScaling no_shcore (process_start Map.empty))) = Map.empty \<and>
   Call_EnumDisplayMonitors
     \<notin> set (calls_during (process_start Map.empty)
              (snd (fixQtHDPINonIntegerScaling no_shcore (process_start Map.empty))))"
proof -
  let ?s = "process_start Map.empty"
  have h: "Call_resolve ''SHCore'' ''GetDpiForMonitor'' False
             \<in> set (calls_during ?s (snd (fixQtHDPINonIntegerScaling no_shcore ?s))) \<or>
           Call_resolve ''user32'' ''SetProcessDPIAware'' False
             \<in> set (calls_during ?s (snd (fixQtHDPINonIntegerScaling no_shcore ?s)))"
    by (simp add: fixQtHDPINonIntegerScaling_no_shcore calls_during_def process_start_fields)
  show ?thesis
    using fixQtHDPINonIntegerScaling_capability_missing [OF h]
    by (simp add: fixQtHDPINonIntegerScaling_no_shcore calls_during_def process_start_fields)
qed


text \<open>
  C7.  When the version gate and the override gate have passed, both entry points were
  found and \<open>readDPI\<close> found the value \<open>dpi\<close> (what \<open>readDPI\<close> finds does not depend
  on the state it starts from): \<open>fixQtHDPINonIntegerScaling\<close> calls \<open>g_setenv\<close> exactly
  when the horizontal DPI is above 96.  It then returns \<open>true\<close> and \<open>QT_SCALE_FACTOR\<close>
  holds the text \<open>QString::number\<close> gives for the horizontal DPI divided by 96; at 96 or
  below it returns \<open>false\<close> and the environment is what it was.  Where
  \<open>QString::number\<close> is the \<open>'g'\<close> rendering with six digits, 144 DPI publishes
  \<open>1.5\<close> and 192 DPI publishes \<open>2\<close>.
\<close>

theorem fixQtHDPINonIntegerScaling_threshold_and_publish:
  assumes "fst (isWindows8OrHigher pf s)"
    and "qgetenv s ''QT_SCALE_FACTOR'' = []"
    and "qgetenv s ''QT_AUTO_SCREEN_SCALE_FACTOR'' = []"
    and "QLibrary_resolve pf ''SHCore'' ''GetDpiForMonitor''"
    and "QLibrary_resolve pf ''user32'' ''SetProcessDPIAware''"
    and "readDPI pf QDpi_default s0 = (True, dpi, s1)"
  shows "(96 < fst dpi \<longrightarrow>
            fst (fixQtHDPINonIntegerScaling pf s) \<and>
            env (snd (fixQtHDPINonIntegerScaling pf s)) =
              (env s)(''QT_SCALE_FACTOR'' \<mapsto> QString_number pf (fst dpi / 96))) \<and>
         (fst dpi \<le> 96 \<longrightarrow>
            \<not> fst (fixQtHDPINonIntegerScaling pf s) \<and>
            env (snd (fixQtHDPINonIntegerScaling pf s)) = env s) \<and>
         ((\<exists>n v. Call_g_setenv n v
             \<in> set (calls_during s (snd (fixQtHDPINonIntegerScaling pf s)))) = (96 < fst dpi)) \<and>
         (QString_number pf = number_g6 \<longrightarrow>
            (fst dpi = 144 \<longrightarrow>
               env (snd (fixQtHDPINonIntegerScaling pf s)) ''QT_SCALE_FACTOR'' = Some ''1.5'') \<and>
            (fst dpi = 192 \<longrightarrow>
               env (snd (fixQtHDPINonIntegerScaling pf s)) ''QT_SCALE_FACTOR'' = Some ''2''))"
proof -
  define s4 where "s4 =
    call Call_SetProcessDPIAware
      ((call (Call_resolve ''user32'' ''SetProcessDPIAware'' True)
         ((call (Call_resolve ''SHCore'' ''GetDpiForMonitor'' True)
            (initializeSystemVersion pf s))\<lparr>getDpiForMonitor := True\<rparr>))
         \<lparr>setProcessDPIAware := True\<rparr>)"
  obtain s5 where rd: "readDPI pf QDpi_default s4 = (True, dpi, s5)"
    using readDPI_state [of pf QDpi_default s4 s0] assms(6)
    by (cases "readDPI pf QDpi_default s4") auto
  obtain ver where ver: "trace (initializeSystemVersion pf s) = trace s @ ver"
    "set ver \<subseteq> {Call_GetVersionEx}"
    using trace_initializeSystemVersion [of pf s] by auto
  have t4: "trace s4 = trace s @ ver @ [Call_resolve ''SHCore'' ''GetDpiForMonitor'' True,
      Call_resolve ''user32'' ''SetProcessDPIAware'' True, Call_SetProcessDPIAware]"
    by (simp add: s4_def call_def ver(1))
  obtain evs where evs: "trace s5 = trace s4 @ Call_EnumDisplayMonitors # evs"
    "\<forall>c\<in>set evs. display_call (monitors pf) c"
    using trace_readDPI [of pf QDpi_default s4] rd by auto
  have noset: "\<And>n v. Call_g_setenv n v \<notin> set ver \<and> Call_g_setenv n v \<notin> set evs"
    using ver(2) evs(2) by (auto simp add: display_call_def)
  have e4: "env s4 = env s" by (simp add: s4_def call_def env_initializeSystemVersion)
  have e5: "env s5 = env s" using env_readDPI [of pf QDpi_default s4] rd e4 by simp
  have fx: "fixQtHDPINonIntegerScaling pf s =
          (if fst dpi \<le> 96 then (False, s5)
           else (True, g_setenv ''QT_SCALE_FACTOR'' (QString_number pf (fst dpi / 96)) True s5))"
    using assms(1-5) rd by (simp add: fixQtHDPINonIntegerScaling_gates s4_def)
  have c5: "calls_during s s5 =
      ver @ [Call_resolve ''SHCore'' ''GetDpiForMonitor'' True,
             Call_resolve ''user32'' ''SetProcessDPIAware'' True, Call_SetProcessDPIAware,
             Call_EnumDisplayMonitors] @ evs"
    by (simp add: calls_during_def evs(1) t4)
  have c6: "calls_during s (g_setenv ''QT_SCALE_FACTOR'' v True s5) =
      calls_during s s5 @ [Call_g_setenv ''QT_SCALE_FACTOR'' v]" for v
    by (simp add: calls_during_def g_setenv_def call_def Let_def evs(1) t4)
  have main: "(96 < fst dpi \<longrightarrow>
            fst (fixQtHDPINonIntegerScaling pf s) \<and>
            env (snd (fixQtHDPINonIntegerScaling pf s)) =
              (env s)(''QT_SCALE_FACTOR'' \<mapsto> QString_number pf (fst dpi / 96))) \<and>
         (fst dpi \<le> 96 \<longrightarrow>
            \<not> fst (fixQtHDPINonIntegerScaling pf s) \<and>
            env (snd (fixQtHDPINonIntegerScaling pf s)) = env s) \<and>
         ((\<exists>n v. Call_g_setenv n v
             \<in> set (calls_during s (snd (fixQtHDPINonIntegerScaling pf s)))) = (96 < fst dpi))"
  proof (cases "fst dpi \<le> 96")
    case True
    then show ?thesis using noset by (simp add: fx e5 c5)
  next
    case False
    then have r: "fixQtHDPINonIntegerScaling pf s =
        (True, g_setenv ''QT_SCALE_FACTOR'' (QString_number pf (fst dpi / 96)) True s5)"
      by (simp add: fx)
    have "Call_g_setenv ''QT_SCALE_FACTOR'' (QString_number pf (fst dpi / 96))
            \<in> set (calls_during s (snd (fixQtHDPINonIntegerScaling pf s)))"
      by (simp add: r c6)
    then have "\<exists>n v. Call_g_setenv n v
            \<in> set (calls_during s (snd (fixQtHDPINonIntegerScaling pf s)))"
      by blast
    moreover have "env (snd (fixQtHDPINonIntegerScaling pf s)) =
        (env s)(''QT_SCALE_FACTOR'' \<mapsto> QString_number pf (fst dpi / 96))"
      by (simp add: r g_setenv_def call_def Let_def e5)
    ultimately show ?thesis using False r by simp
  qed
  have examples: "QString_number pf = number_g6 \<longrightarrow>
            (fst dpi = 144 \<longrightarrow>
               env (snd (fixQtHDPINonIntegerScaling pf s)) ''QT_SCALE_FACTOR'' = Some ''1.5'') \<and>
            (fst dpi = 192 \<longrightarrow>
               env (snd (fixQtHDPINonIntegerScaling pf s)) ''QT_SCALE_FACTOR'' = Some ''2'')"
    using main by (simp add: number_g6_examples)
  show ?thesis using main examples by blast
qed

theorem fixQtHDPINonIntegerScaling_threshold_and_publish_witness:
  "fst (fixQtHDPINonIntegerScaling (monitor_at 144) (process_start Map.empty)) \<and>
   env (snd (fixQtHDPINonIntegerScaling (monitor_at 144) (process_start Map.empty))) =
     [''QT_SCALE_FACTOR'' \<mapsto> ''1.5''] \<and>
   fst (fixQtHDPINonIntegerScaling (monitor_at 192) (process_start Map.empty)) \<and>
   env (snd (fixQtHDPINonIntegerScaling (monitor_at 192) (process_start Map.empty))) =
     [''QT_SCALE_FACTOR'' \<mapsto> ''2''] \<and>
   \<not> fst (fixQtHDPINonIntegerScaling (monitor_at 96) (process_start Map.empty)) \<and>
   env (snd (fixQtHDPINonIntegerScaling (monitor_at 96) (process_start Map.empty))) = Map.empty"
proof -
  let ?s = "process_start Map.empty"
  have g1: "fst (isWindows8OrHigher (monitor_at x) ?s)" for x
    by (simp add: isWindows8OrHigher_monitor_at)
  have g2: "qgetenv ?s ''QT_SCALE_FACTOR'' = []"
    "qgetenv ?s ''QT_AUTO_SCREEN_SCALE_FACTOR'' = []"
    "QLibrary_resolve (monitor_at x) ''SHCore'' ''GetDpiForMonitor''"
    "QLibrary_resolve (monitor_at x) ''user32'' ''SetProcessDPIAware''" for x
    by (simp_all add: qgetenv_def process_start_fields monitor_at_def windows_81_def)
  note g = g1 g2
  have r144: "readDPI (monitor_at 144) QDpi_default ?s =
      (True, (144, 144), ?s\<lparr>trace := trace ?s @ [Call_EnumDisplayMonitors,
         Call_GetMonitorInfo 1, Call_GetDpiForMonitor 1]\<rparr>)"
    using readDPI_monitor_at [of 144 ?s] by simp
  have r192: "readDPI (monitor_at 192) QDpi_default ?s =
      (True, (192, 192), ?s\<lparr>trace := trace ?s @ [Call_EnumDisplayMonitors,
         Call_GetMonitorInfo 1, Call_GetDpiForMonitor 1]\<rparr>)"
    using readDPI_monitor_at [of 192 ?s] by simp
  have r96: "readDPI (monitor_at 96) QDpi_default ?s =
      (True, (96, 96), ?s\<lparr>trace := trace ?s @ [Call_EnumDisplayMonitors,
         Call_GetMonitorInfo 1, Call_GetDpiForMonitor 1]\<rparr>)"
    using readDPI_monitor_at [of 96 ?s] by simp
  have n: "QString_number (monitor_at x) = number_g6" for x
    by (simp add: monitor_at_def windows_81_def)
  show ?thesis
    using fixQtHDPINonIntegerScaling_threshold_and_publish [OF g r144]
      fixQtHDPINonIntegerScaling_threshold_and_publish [OF g r192]
      fixQtHDPINonIntegerScaling_threshold_and_publish [OF g r96]
    by (simp add: n number_g6_examples process_start_fields)
qed

text \<open>
  C8.  A monitor whose device name is \<open>WinDisc\<close> gives no DPI: \<open>monitorData\<close> returns
  \<open>false\<close>, leaves \<open>dpi_out\<close> as it was and asks for nothing beyond the monitor
  information; when it is the only monitor, \<open>readDPI\<close> on a fresh \<open>QDpi\<close> returns
  \<open>false\<close>.
\<close>

theorem monitorData_sentinel_excluded:
  assumes "GetMonitorInfo pf h = Some info" and "szDevice info = ''WinDisc''"
  shows "monitorData pf h dpi s = (False, dpi, call (Call_GetMonitorInfo h) s) \<and>
         (monitors pf = [h] \<longrightarrow>
            readDPI pf QDpi_default s =
              (False, QDpi_default,
               call (Call_GetMonitorInfo h) (call Call_EnumDisplayMonitors s)))"
proof -
  have md: "\<And>d t. monitorData pf h d t = (False, d, call (Call_GetMonitorInfo h) t)"
    using assms by (simp add: monitorData_def Let_def)
  show ?thesis
    by (simp add: md readDPI_def EnumDisplayMonitors_def enum_monitors_Cons QDpi_default_def)
qed

theorem monitorData_sentinel_excluded_witness:
  "GetMonitorInfo only_sentinel 1 = Some \<lparr>cbSize = 72, dwFlags = 1, szDevice = ''WinDisc''\<rparr> \<and>
   monitors only_sentinel = [1] \<and>
   \<not> fst (monitorData only_sentinel 1 (120, 120) (process_start Map.empty)) \<and>
   fst (snd (monitorData only_sentinel 1 (120, 120) (process_start Map.empty))) = (120, 120) \<and>
   \<not> fst (readDPI only_sentinel QDpi_default (process_start Map.empty)) \<and>
   trace (snd (snd (readDPI only_sentinel QDpi_default (process_start Map.empty)))) =
     [Call_EnumDisplayMonitors, Call_GetMonitorInfo 1]"
proof -
  have h: "GetMonitorInfo only_sentinel 1 =
             Some \<lparr>cbSize = 72, dwFlags = 1, szDevice = ''WinDisc''\<rparr>"
    "szDevice \<lparr>cbSize = 72, dwFlags = 1, szDevice = ''WinDisc''\<rparr> = ''WinDisc''"
    by (simp_all add: only_sentinel_def windows_81_def)
  have m: "monitors only_sentinel = [1]"
    by (simp add: only_sentinel_def windows_81_def)
  show ?thesis
    using h(1) m monitorData_sentinel_excluded [OF h, of "(120, 120)" "process_start Map.empty"]
    by (simp add: call_def process_start_fields)
qed

text \<open>
  C9.  The version cache is filled at most once.  On a platform whose \<open>GetVersionEx\<close>
  leaves \<open>dwOSVersionInfoSize\<close> as the caller set it, any run of calls to
  \<open>getSystemVersion\<close> and \<open>isAtLeastSystemVersion\<close> leaves the process as its first call
  left it: the cached structure, the failure flag and the calls made are unchanged,
  whether the query succeeded or failed.  From program start the query is made at most
  once.
\<close>

theorem version_cache_initialized_once:
  assumes "\<forall>v. dwOSVersionInfoSize (snd (GetVersionEx pf v)) = dwOSVersionInfoSize v"
  shows "serve_all pf (r # rs) s = serve pf r s \<and>
         count_list (trace (serve_all pf rs' (process_start e))) Call_GetVersionEx \<le> 1"
proof -
  have first: "serve_all pf (r # rs) s = serve pf r s" for r rs s
    using assms
    by (simp add: serve_all_initialized serve_eq initializeSystemVersion_initializes)
  have "count_list (trace (serve_all pf rs' (process_start e))) Call_GetVersionEx \<le> 1"
  proof (cases rs')
    case Nil
    then show ?thesis by (simp add: process_start_fields)
  next
    case (Cons r' rs'')
    then show ?thesis
      by (simp add: first serve_eq trace_initializeSystemVersion process_start_fields
          del: serve_all.simps)
  qed
  then show ?thesis using first by simp
qed

theorem version_cache_initialized_once_witness:
  "(\<forall>v. dwOSVersionInfoSize (snd (GetVersionEx query_fails v)) = dwOSVersionInfoSize v) \<and>
   serve_all query_fails
     [IsAtLeastSystemVersion 6 2 0, GetSystemVersion (0, 0, 0), IsAtLeastSystemVersion 5 1 0]
     (process_start Map.empty) =
   serve query_fails (IsAtLeastSystemVersion 6 2 0) (process_start Map.empty) \<and>
   osver_failure (serve query_fails (IsAtLeastSystemVersion 6 2 0) (process_start Map.empty)) \<and>
   trace (serve_all query_fails
     [IsAtLeastSystemVersion 6 2 0, GetSystemVersion (0, 0, 0), IsAtLeastSystemVersion 5 1 0]
     (process_start Map.empty)) = [Call_GetVersionEx]"
proof -
  have h: "\<forall>v. dwOSVersionInfoSize (snd (GetVersionEx query_fails v)) = dwOSVersionInfoSize v"
    by (simp add: query_fails_def windows_81_def)
  have t: "trace (serve query_fails (IsAtLeastSystemVersion 6 2 0) (process_start Map.empty)) =
             [Call_GetVersionEx]"
    "osver_failure (serve query_fails (IsAtLeastSystemVersion 6 2 0) (process_start Map.empty))"
    by (simp_all add: version_defs platform_defs)
  show ?thesis
    using h t version_cache_initialized_once [OF h, of "IsAtLeastSystemVersion 6 2 0"
        "[GetSystemVersion (0, 0, 0), IsAtLeastSystemVersion 5 1 0]" "process_start Map.empty"
        "[]" Map.empty]
    by (simp del: serve_all.simps serve.simps)
qed

text \<open>
  C10.  \<open>monitorData\<close> succeeds exactly when the monitor information can be read, the name
  is not \<open>WinDisc\<close>, and the per-monitor query gives a non-zero horizontal value or a
  device context can be opened.  The enumeration stops at the first monitor \<open>h\<close> where it
  succeeds: \<open>readDPI\<close> behaves as if \<open>h\<close> were the last monitor, no later monitor is asked
  for its information, and the value stored is the one found for \<open>h\<close>.  When that value
  has a zero horizontal component, which only the device-context fallback can produce,
  \<open>readDPI\<close> still returns \<open>false\<close>.
\<close>

theorem readDPI_stops_at_first_success:
  assumes "monitors pf = pre @ h # post"
    and "\<forall>h'\<in>set pre. \<forall>d t. \<not> fst (monitorData pf h' d t)"
    and "fst (monitorData pf h d0 s0)"
  shows "(fst (monitorData pf h d0 s0) =
           (\<exists>info. GetMonitorInfo pf h = Some info \<and> szDevice info \<noteq> ''WinDisc'' \<and>
              ((SUCCEEDED (fst (GetDpiForMonitor pf h)) \<and> fst (snd (GetDpiForMonitor pf h)) \<noteq> 0)
               \<or> CreateDC pf (szDevice info) \<noteq> 0))) \<and>
         readDPI pf dpi s = readDPI (pf\<lparr>monitors := pre @ [h]\<rparr>) dpi s \<and>
         (\<forall>h'. Call_GetMonitorInfo h' \<in> set (calls_during s (snd (snd (readDPI pf dpi s))))
                 \<longrightarrow> h' \<in> set pre \<or> h' = h) \<and>
         fst (snd (readDPI pf dpi s)) = fst (snd (monitorData pf h d0 s0)) \<and>
         (fst (fst (snd (monitorData pf h d0 s0))) = 0 \<longrightarrow> \<not> fst (readDPI pf dpi s))"
proof -
  let ?cb = "monitorEnumCallback pf"
  let ?s = "call Call_EnumDisplayMonitors s"
  have pre: "\<forall>h'\<in>set pre. probe pf h' = None"
    using assms(2) monitorData_probe(1) by blast
  have h: "probe pf h \<noteq> None"
    using assms(3) monitorData_probe(1) by blast
  have char: "fst (monitorData pf h d0 s0) =
           (\<exists>info. GetMonitorInfo pf h = Some info \<and> szDevice info \<noteq> ''WinDisc'' \<and>
              ((SUCCEEDED (fst (GetDpiForMonitor pf h)) \<and> fst (snd (GetDpiForMonitor pf h)) \<noteq> 0)
               \<or> CreateDC pf (szDevice info) \<noteq> 0))"
    by (auto simp add: monitorData_probe(1) probe_def split: option.splits)
  obtain s1 where s1:
    "\<And>rest. enum_monitors ?cb (pre @ rest) dpi ?s = enum_monitors ?cb rest dpi s1"
    using enum_monitors_skip [OF pre, of _ dpi ?s] by (metis prod.inject)
  have "enum_monitors ?cb (pre @ h # post) dpi ?s = enum_monitors ?cb (pre @ [h]) dpi ?s"
    by (simp only: s1 enum_monitors_stop [OF h])
  then have same: "readDPI pf dpi s = readDPI (pf\<lparr>monitors := pre @ [h]\<rparr>) dpi s"
    by (simp add: readDPI_def EnumDisplayMonitors_def assms(1) monitorEnumCallback_monitors)
  obtain evs where evs:
    "trace (snd (snd (readDPI (pf\<lparr>monitors := pre @ [h]\<rparr>) dpi s))) =
       trace s @ Call_EnumDisplayMonitors # evs"
    "\<forall>c\<in>set evs. display_call (pre @ [h]) c"
    using trace_readDPI [of "pf\<lparr>monitors := pre @ [h]\<rparr>" dpi s] by auto
  have calls: "calls_during s (snd (snd (readDPI pf dpi s))) = Call_EnumDisplayMonitors # evs"
    using evs(1) by (simp add: same calls_during_append)
  have visited:
    "\<forall>h'. Call_GetMonitorInfo h' \<in> set (calls_during s (snd (snd (readDPI pf dpi s))))
            \<longrightarrow> h' \<in> set pre \<or> h' = h"
    using evs(2) by (auto simp add: calls display_call_def)
  have val: "fst (enum_monitors ?cb (pre @ h # post) dpi ?s) = fst (snd (monitorData pf h d0 s0))"
    using monitorData_probe(2) [of pf h dpi s1] monitorData_probe(2) [of pf h d0 s0] h
    by (auto simp add: s1 enum_monitors_stop [OF h])
  have stored: "fst (snd (readDPI pf dpi s)) = fst (snd (monitorData pf h d0 s0))"
    using val by (simp add: readDPI_projections EnumDisplayMonitors_def assms(1))
  have zero: "fst (fst (snd (monitorData pf h d0 s0))) = 0 \<longrightarrow> \<not> fst (readDPI pf dpi s)"
    using stored by (simp add: readDPI_projections)
  show ?thesis using char same visited stored zero by blast
qed

lemma readDPI_three_monitors:
  "readDPI three_monitors d s =
     (False, (0, 96),
      s\<lparr>trace := trace s @ [Call_EnumDisplayMonitors, Call_GetMonitorInfo 1,
                              Call_GetMonitorInfo 2, Call_GetDpiForMonitor 2,
                              Call_CreateDC ''DISPLAY2'', Call_DeleteDC 7]\<rparr>)"
  by (simp add: dpi_defs three_monitors_def windows_81_def)

lemma readDPI_two_monitors:
  "readDPI (three_monitors\<lparr>monitors := [Suc 0, 2]\<rparr>) d s =
     (False, (0, 96),
      s\<lparr>trace := trace s @ [Call_EnumDisplayMonitors, Call_GetMonitorInfo 1,
                              Call_GetMonitorInfo 2, Call_GetDpiForMonitor 2,
                              Call_CreateDC ''DISPLAY2'', Call_DeleteDC 7]\<rparr>)"
  by (simp add: dpi_defs three_monitors_def windows_81_def)

theorem readDPI_stops_at_first_success_witness:
  "monitors three_monitors = [1] @ 2 # [3] \<and>
   (\<forall>d t. \<not> fst (monitorData three_monitors 1 d t)) \<and>
   fst (monitorData three_monitors 2 QDpi_default (process_start Map.empty)) \<and>
   fst (snd (monitorData three_monitors 2 QDpi_default (process_start Map.empty))) = (0, 96) \<and>
   fst (monitorData three_monitors 3 QDpi_default (process_start Map.empty)) \<and>
   readDPI three_monitors QDpi_default (process_start Map.empty) =
     readDPI (three_monitors\<lparr>monitors := [1] @ [2]\<rparr>) QDpi_default (process_start Map.empty) \<and>
   \<not> fst (readDPI three_monitors QDpi_default (process_start Map.empty)) \<and>
   Call_GetMonitorInfo 3
     \<notin> set (calls_during (process_start Map.empty)
              (snd (snd (readDPI three_monitors QDpi_default (process_start Map.empty)))))"
proof -
  let ?s = "process_start Map.empty"
  have m: "monitors three_monitors = [1] @ 2 # [3]"
    by (simp add: three_monitors_def windows_81_def)
  have p: "\<forall>h'\<in>set [1]. \<forall>d t. \<not> fst (monitorData three_monitors h' d t)"
    by (simp add: dpi_defs three_monitors_def windows_81_def)
  have h: "fst (monitorData three_monitors 2 QDpi_default ?s)"
    by (simp add: dpi_defs three_monitors_def windows_81_def)
  have v: "fst (snd (monitorData three_monitors 2 QDpi_default ?s)) = (0, 96)"
    "fst (monitorData three_monitors 3 QDpi_default ?s)"
    by (simp_all add: dpi_defs three_monitors_def windows_81_def)
  show ?thesis
    using m p h v
      readDPI_stops_at_first_success [OF m p h, of QDpi_default ?s]
    by (simp add: readDPI_three_monitors readDPI_two_monitors calls_during_def
        process_start_fields)
qed

end
